theory Spec2Isabelle
  imports Main
begin

section \<open>Python values\<close>

text \<open>
  The memory record of \<^verbatim>\<open>conversation_router.py\<close> and the stock-data bundle of
  \<^verbatim>\<open>validator.py\<close> are untyped Python dictionaries (\<^verbatim>\<open>Dict[str, Any]\<close>), so their
  contents are modelled as dynamically typed values: \<^verbatim>\<open>None\<close>, booleans, integers, strings,
  lists and dictionaries with string keys (an association list, first binding wins).
  Floats are left out: the code below reads a float only through its truth value or a
  comparison with an integer, for which an integer stands in.

  A Python \<^verbatim>\<open>str\<close> is modelled as a \<^typ>\<open>string\<close> holding its UTF-8 encoding. The
  characters the code keeps or asks for are ASCII (lower-case letters, digits, the
  apostrophe, white space) but for U+2019 and U+2014, which are their three bytes each.
  Upper case and white space are modelled on the ASCII range; Python's tables go further in
  that white space outside ASCII is stripped from the ends of a field, and that U+0130 and
  U+212A have lower-case forms with an ASCII letter.
\<close>

datatype pyval =
    PNone
  | PBool bool
  | PInt int
  | PStr string
  | PList "pyval list"
  | PDict "(string \<times> pyval) list"

datatype py_error = AttributeError | TypeError | IndexError

fun py_truthy :: "pyval \<Rightarrow> bool" where
  "py_truthy PNone = False"
| "py_truthy (PBool b) = b"
| "py_truthy (PInt n) = (n \<noteq> 0)"
| "py_truthy (PStr s) = (s \<noteq> [])"
| "py_truthy (PList xs) = (xs \<noteq> [])"
| "py_truthy (PDict d) = (d \<noteq> [])"

text \<open>\<^verbatim>\<open>x or y\<close>\<close>

definition py_or :: "pyval \<Rightarrow> pyval \<Rightarrow> pyval" where
  "py_or x y = (if py_truthy x then x else y)"

text \<open>\<^verbatim>\<open>d.get(key, default)\<close>: only a dictionary has the method.\<close>

fun py_get_default :: "pyval \<Rightarrow> string \<Rightarrow> pyval \<Rightarrow> py_error + pyval" where
  "py_get_default (PDict d) k dflt = Inr (case map_of d k of None \<Rightarrow> dflt | Some v \<Rightarrow> v)"
| "py_get_default _ k dflt = Inl AttributeError"

text \<open>The same on a value known to be a dictionary.\<close>

definition dict_get :: "(string \<times> pyval) list \<Rightarrow> string \<Rightarrow> pyval" where
  "dict_get d k = (case map_of d k of None \<Rightarrow> PNone | Some v \<Rightarrow> v)"

definition py_get :: "pyval \<Rightarrow> string \<Rightarrow> py_error + pyval" where
  "py_get d k = py_get_default d k PNone"

text \<open>\<^verbatim>\<open>for x in v\<close>: a list gives its items, a string its characters, a dictionary its
  keys; the other values are not iterable.\<close>

fun py_iter :: "pyval \<Rightarrow> py_error + pyval list" where
  "py_iter (PList xs) = Inr xs"
| "py_iter (PStr s) = Inr (map (\<lambda>c. PStr [c]) s)"
| "py_iter (PDict d) = Inr (map (\<lambda>kv. PStr (fst kv)) d)"
| "py_iter _ = Inl TypeError"

text \<open>\<^verbatim>\<open>v > k\<close> for an integer \<^verbatim>\<open>k\<close>: defined for numbers (a boolean is the integer 0 or 1),
  a \<^verbatim>\<open>TypeError\<close> for everything else.\<close>

fun py_gt_int :: "pyval \<Rightarrow> int \<Rightarrow> py_error + bool" where
  "py_gt_int (PInt n) k = Inr (n > k)"
| "py_gt_int (PBool b) k = Inr ((if b then 1 else 0) > k)"
| "py_gt_int _ k = Inl TypeError"

subsection \<open>\<^verbatim>\<open>str()\<close> and \<^verbatim>\<open>repr()\<close>\<close>

definition digit_char :: "nat \<Rightarrow> char" where
  "digit_char n = ''0123456789abcdef'' ! n"

fun str_of_nat :: "nat \<Rightarrow> string" where
  "str_of_nat n = (if n < 10 then [digit_char n] else str_of_nat (n div 10) @ [digit_char (n mod 10)])"

declare str_of_nat.simps [simp del]

definition str_of_int :: "int \<Rightarrow> string" where
  "str_of_int i = (if i < 0 then CHR ''-'' # str_of_nat (nat (- i)) else str_of_nat (nat i))"

text \<open>\<^verbatim>\<open>repr\<close> of a string: double quotes when the text has a single quote and no double
  quote, single quotes otherwise; backslash, the chosen quote and control characters escaped.\<close>

definition repr_char :: "char \<Rightarrow> char \<Rightarrow> string" where
  "repr_char q c =
     (if c = q \<or> c = CHR 0x5C then [CHR 0x5C, c]
      else if c = CHR 0x09 then [CHR 0x5C, CHR ''t'']
      else if c = CHR 0x0A then [CHR 0x5C, CHR ''n'']
      else if c = CHR 0x0D then [CHR 0x5C, CHR ''r'']
      else if (of_char c :: nat) < 32 \<or> c = CHR 0x7F
        then [CHR 0x5C, CHR ''x'', digit_char (of_char c div 16), digit_char (of_char c mod 16)]
      else [c])"

definition repr_str :: "string \<Rightarrow> string" where
  "repr_str s =
     (let q = (if CHR 0x27 \<in> set s \<and> CHR 0x22 \<notin> set s then CHR 0x22 else CHR 0x27)
      in [q] @ concat (map (repr_char q) s) @ [q])"

fun py_join :: "string \<Rightarrow> string list \<Rightarrow> string" where
  "py_join sep [] = []"
| "py_join sep [x] = x"
| "py_join sep (x # y # ys) = x @ sep @ py_join sep (y # ys)"

fun py_repr :: "pyval \<Rightarrow> string" where
  "py_repr PNone = ''None''"
| "py_repr (PBool b) = (if b then ''True'' else ''False'')"
| "py_repr (PInt n) = str_of_int n"
| "py_repr (PStr s) = repr_str s"
| "py_repr (PList xs) = ''['' @ py_join '', '' (map py_repr xs) @ '']''"
| "py_repr (PDict d) =
     ''{'' @ py_join '', '' (map (\<lambda>kv. repr_str (fst kv) @ '': '' @ py_repr (snd kv)) d) @ ''}''"

definition py_str :: "pyval \<Rightarrow> string" where
  "py_str v = (case v of PStr s \<Rightarrow> s | _ \<Rightarrow> py_repr v)"

section \<open>Follow-up routing (\<^verbatim>\<open>conversation_router.py\<close>)\<close>

subsection \<open>Public data shapes\<close>

record FollowupAction =
  action_id :: string
  label :: string
  query :: string
  action_keywords :: "string list"

record FollowupResolution =
  kind :: string
  action :: "FollowupAction option"
  clarify_prompt :: "string option"
  confidence :: int
  reason :: string

subsection \<open>Normalization utilities\<close>

text \<open>Whitespace as \<^verbatim>\<open>str.strip\<close> and the regular expression \<^verbatim>\<open>\s\<close> see it (ASCII part).\<close>

definition is_space :: "char \<Rightarrow> bool" where
  "is_space c \<longleftrightarrow>
     c \<in> set [CHR 0x09, CHR 0x0A, CHR 0x0B, CHR 0x0C, CHR 0x0D,
               CHR 0x1C, CHR 0x1D, CHR 0x1E, CHR 0x1F, CHR 0x20]"

definition is_lower_alnum :: "char \<Rightarrow> bool" where
  "is_lower_alnum c \<longleftrightarrow> c \<in> set ''abcdefghijklmnopqrstuvwxyz0123456789''"

definition is_digit :: "char \<Rightarrow> bool" where
  "is_digit c \<longleftrightarrow> c \<in> set ''0123456789''"

text \<open>The class \<^verbatim>\<open>[a-z0-9']\<close> of \<^verbatim>\<open>_WORD_RE\<close>.\<close>

definition is_token_char :: "char \<Rightarrow> bool" where
  "is_token_char c \<longleftrightarrow> is_lower_alnum c \<or> c = CHR 0x27"

text \<open>The regular expression class \<^verbatim>\<open>\w\<close>, which decides \<^verbatim>\<open>\b\<close>.\<close>

definition is_word :: "char \<Rightarrow> bool" where
  "is_word c \<longleftrightarrow> is_lower_alnum c \<or> c \<in> set ''ABCDEFGHIJKLMNOPQRSTUVWXYZ_''"

definition lower_char :: "char \<Rightarrow> char" where
  "lower_char c =
     (case map_of (zip ''ABCDEFGHIJKLMNOPQRSTUVWXYZ'' ''abcdefghijklmnopqrstuvwxyz'') c of
        Some l \<Rightarrow> l
      | None \<Rightarrow> c)"

definition py_lower :: "string \<Rightarrow> string" where
  "py_lower s = map lower_char s"

definition py_strip :: "string \<Rightarrow> string" where
  "py_strip s = rev (dropWhile is_space (rev (dropWhile is_space s)))"

fun startswith :: "string \<Rightarrow> string \<Rightarrow> bool" where
  "startswith s [] = True"
| "startswith [] (p # ps) = False"
| "startswith (c # cs) (p # ps) = (c = p \<and> startswith cs ps)"

text \<open>The \<^verbatim>\<open>replace\<close> of the right single quotation mark U+2019, the three bytes
  E2 80 99, by the ASCII apostrophe.\<close>

fun replace_rsquo :: "string \<Rightarrow> string" where
  "replace_rsquo (a # b # c # s) =
     (if a = CHR 0xE2 \<and> b = CHR 0x80 \<and> c = CHR 0x99 then CHR 0x27 # replace_rsquo s
      else a # replace_rsquo (b # c # s))"
| "replace_rsquo s = s"

text \<open>\<^verbatim>\<open>re.sub(r"[C]+", " ", s)\<close> for a character class \<open>C\<close>: every maximal run of
  characters of the class becomes one space.\<close>

function sub_runs :: "(char \<Rightarrow> bool) \<Rightarrow> string \<Rightarrow> string" where
  "sub_runs p [] = []"
| "sub_runs p (c # cs) =
     (if p c then CHR 0x20 # sub_runs p (dropWhile p cs) else c # sub_runs p cs)"
  by pat_completeness auto
termination
  by (relation "measure (\<lambda>(p, s). length s)") (auto simp: length_dropWhile_le less_Suc_eq_le)

text \<open>\<^verbatim>\<open>re.findall(r"[C]+", s)\<close>: the maximal runs of characters of the class, in order.\<close>

function findall_runs :: "(char \<Rightarrow> bool) \<Rightarrow> string \<Rightarrow> string list" where
  "findall_runs p [] = []"
| "findall_runs p (c # cs) =
     (if p c then (c # takeWhile p cs) # findall_runs p (dropWhile p cs)
      else findall_runs p cs)"
  by pat_completeness auto
termination
  by (relation "measure (\<lambda>(p, s). length s)") (auto simp: length_dropWhile_le less_Suc_eq_le)

definition normalize_text :: "string \<Rightarrow> string" where
  "normalize_text s0 =
     (let s = py_lower (py_strip s0);
          s = replace_rsquo s;
          s = sub_runs (\<lambda>c. \<not> (is_token_char c \<or> is_space c)) s;
          s = py_strip (sub_runs is_space s)
      in s)"

definition tokens :: "string \<Rightarrow> string list" where
  "tokens s = findall_runs is_token_char (normalize_text s)"

subsection \<open>Continuation / ack detection\<close>

definition ACK_PREFIXES :: "string list" where
  "ACK_PREFIXES =
     [''yes'', ''yeah'', ''yep'', ''yup'', ''sure'', ''ok'', ''okay'', ''k'', ''kk'',
      ''sounds good'', ''do that'', ''do it'', ''lets do that'',
      ''let'' @ [CHR 0x27] @ ''s do that'',
      ''lets do it'', ''let'' @ [CHR 0x27] @ ''s do it'', ''go ahead'', ''continue'',
      ''keep going'', ''dive in'', ''dive deeper'', ''lets dive'',
      ''let'' @ [CHR 0x27] @ ''s dive'', ''run it'',
      ''sounds right'', ''that works'', ''fine'', ''alright'', ''all right'']"

definition ACK_SINGLETONS :: "string set" where
  "ACK_SINGLETONS =
     {''yes'', ''yeah'', ''yep'', ''yup'', ''sure'', ''ok'', ''okay'', ''alright'', ''go'',
      ''do'', ''doit'', ''continue''}"

definition is_ack_or_continue :: "string \<Rightarrow> bool" where
  "is_ack_or_continue user_text =
     (let t = normalize_text user_text in
      if t = [] then False
      else if t \<in> ACK_SINGLETONS then True
      else if list_ex (\<lambda>p. startswith t p) ACK_PREFIXES then True
      else let toks = tokens t in
        if length toks \<le> 4 \<and>
           list_ex (\<lambda>x. x \<in> set [''yes'', ''yeah'', ''yep'', ''sure'', ''ok'', ''okay'', ''alright'']) toks
        then True
        else False)"

subsection \<open>Option picking helpers\<close>

definition ORDINAL_MAP :: "(string \<times> int) list" where
  "ORDINAL_MAP =
     [(''first'', 0), (''1st'', 0), (''one'', 0),
      (''second'', 1), (''2nd'', 1), (''two'', 1),
      (''third'', 2), (''3rd'', 2), (''three'', 2),
      (''fourth'', 3), (''4th'', 3), (''four'', 3)]"

definition digit_val :: "char \<Rightarrow> int" where
  "digit_val c = int (of_char c) - 48"

text \<open>The pattern \<^verbatim>\<open>(option|choice)\s*(\d)\b\<close> matched at the head of the text; the result is
  \<^verbatim>\<open>int(m.group(2))\<close>. The greedy \<^verbatim>\<open>\s*\<close> has to take the whole run of spaces, since a
  space is no digit; \<^verbatim>\<open>\b\<close> after the digit asks for the end of the text or a character
  outside \<^verbatim>\<open>\w\<close>.\<close>

definition match_option_choice :: "string \<Rightarrow> int option" where
  "match_option_choice s =
     (if startswith s ''option'' \<or> startswith s ''choice'' then
        (case dropWhile is_space (drop 6 s) of
           [] \<Rightarrow> None
         | d # rest \<Rightarrow>
             if is_digit d \<and> (case rest of [] \<Rightarrow> True | r # _ \<Rightarrow> \<not> is_word r)
             then Some (digit_val d) else None)
      else None)"

text \<open>\<^verbatim>\<open>re.search\<close> of \<^verbatim>\<open>\b(option|choice)\s*(\d)\b\<close>: the leftmost position where the
  pattern matches. The leading \<^verbatim>\<open>\b\<close> holds where the character before is outside
  \<^verbatim>\<open>\w\<close> (or there is none); the flag carries that.\<close>

fun search_option_choice :: "bool \<Rightarrow> string \<Rightarrow> int option" where
  "search_option_choice prev_word [] = None"
| "search_option_choice prev_word (c # cs) =
     (case (if prev_word then None else match_option_choice (c # cs)) of
        Some n \<Rightarrow> Some n
      | None \<Rightarrow> search_option_choice (is_word c) cs)"

definition ordinal_pick :: "string \<Rightarrow> int option" where
  "ordinal_pick user_text =
     (case List.find (\<lambda>w. map_of ORDINAL_MAP w \<noteq> None) (tokens user_text) of
        Some w \<Rightarrow> map_of ORDINAL_MAP w
      | None \<Rightarrow>
          (case search_option_choice False (normalize_text user_text) of
             None \<Rightarrow> None
           | Some n \<Rightarrow> (let idx = n - 1 in if idx \<ge> 0 then Some idx else None)))"

text \<open>Deterministic keyword scoring; the token collections are Python sets.\<close>

definition keyword_points :: "string set \<Rightarrow> string \<Rightarrow> int" where
  "keyword_points utoks kw =
     (let kw_toks = set (tokens kw) in
      if kw_toks \<noteq> {} \<and> kw_toks \<subseteq> utoks then 10
      else 3 * int (card (utoks \<inter> kw_toks)))"

definition score_action_match :: "string \<Rightarrow> FollowupAction \<Rightarrow> int" where
  "score_action_match user_text a =
     (let utoks = set (tokens user_text) in
      if utoks = {} then 0
      else
        let score = 0;
            id_toks = set (findall_runs is_lower_alnum (py_lower (action_id a)));
            score = score + 4 * int (card (utoks \<inter> id_toks));
            score = fold (\<lambda>kw score. score + keyword_points utoks kw) (action_keywords a) score;
            label_toks = set (tokens (label a));
            score = score + 2 * int (card (utoks \<inter> label_toks))
        in score)"

subsection \<open>Main resolver\<close>

text \<open>The body of the loop over \<^verbatim>\<open>actions_raw\<close>: \<open>None\<close> is \<^verbatim>\<open>continue\<close>, \<open>Some\<close> the
  action appended. Iterating over the keywords raises when they are neither a string nor
  iterable.\<close>

definition load_action :: "pyval \<Rightarrow> py_error + FollowupAction option" where
  "load_action a =
     (case a of
        PDict d \<Rightarrow>
          (let aid = py_strip (py_str (py_or (dict_get d ''id'') (PStr [])));
               label = py_strip (py_str (py_or (dict_get d ''label'') (PStr [])));
               query = py_strip (py_str (py_or (dict_get d ''query'') (PStr [])))
           in if aid = [] \<or> query = [] then Inr None
              else
                let kws = py_or (dict_get d ''keywords'') (PList []);
                    kws = (case kws of PStr s \<Rightarrow> PList [kws] | _ \<Rightarrow> kws)
                in case py_iter kws of
                     Inl e \<Rightarrow> Inl e
                   | Inr xs \<Rightarrow>
                       Inr (Some \<lparr>action_id = aid, label = label, query = query,
                         action_keywords =
                           filter (\<lambda>k. k \<noteq> []) (map (\<lambda>x. py_strip (py_str x)) xs)\<rparr>))
      | _ \<Rightarrow> Inr None)"

fun load_actions_loop :: "pyval list \<Rightarrow> FollowupAction list \<Rightarrow> py_error + FollowupAction list" where
  "load_actions_loop [] actions = Inr actions"
| "load_actions_loop (a # rest) actions =
     (case load_action a of
        Inl e \<Rightarrow> Inl e
      | Inr None \<Rightarrow> load_actions_loop rest actions
      | Inr (Some x) \<Rightarrow> load_actions_loop rest (actions @ [x]))"

definition load_actions_from_memory :: "pyval \<Rightarrow> py_error + (FollowupAction list \<times> pyval)" where
  "load_actions_from_memory last_context =
     (case py_get (py_or last_context (PDict [])) ''next_actions'' of
        Inl e \<Rightarrow> Inl e
      | Inr next_actions \<Rightarrow>
          let actions_raw = py_or next_actions (PList []) in
          (case py_get (py_or last_context (PDict [])) ''default_action_id'' of
             Inl e \<Rightarrow> Inl e
           | Inr default_id \<Rightarrow>
               (case py_iter actions_raw of
                  Inl e \<Rightarrow> Inl e
                | Inr items \<Rightarrow>
                    (case load_actions_loop items [] of
                       Inl e \<Rightarrow> Inl e
                     | Inr actions \<Rightarrow>
                         Inr (actions,
                              if \<not> py_truthy default_id \<and> actions \<noteq> []
                              then PStr (action_id (hd actions)) else default_id)))))"

text \<open>The clarifying question over the first three actions; the dash of the source text is
  U+2014, the bytes E2 80 94.\<close>

definition clarify_text :: "FollowupAction list \<Rightarrow> string" where
  "clarify_text actions =
     (let options = map (\<lambda>a. if label a \<noteq> [] then label a else action_id a) (take 3 actions);
          opt_text = py_join ''; ''
            (map (\<lambda>(i, x). str_of_int (int i + 1) @ '') '' @ x) (enumerate 0 options))
      in ''Quick check: which one did you mean '' @ [CHR 0xE2, CHR 0x80, CHR 0x94] @ '' ''
         @ opt_text @ ''?'')"

text \<open>\<^verbatim>\<open>scored.sort(key=lambda x: x[1], reverse=True)\<close>: a stable sort, highest score first,
  equal scores in their original order.\<close>

definition sort_scored :: "(FollowupAction \<times> int) list \<Rightarrow> (FollowupAction \<times> int) list" where
  "sort_scored scored = sort_key (\<lambda>x. - snd x) scored"

definition resolve_followup :: "string \<Rightarrow> pyval \<Rightarrow> py_error + FollowupResolution" where
  "resolve_followup user_text last_context =
     (case load_actions_from_memory last_context of
        Inl e \<Rightarrow> Inl e
      | Inr (actions, default_id) \<Rightarrow>
          if actions = [] then
            Inr \<lparr>kind = ''none'', action = None, clarify_prompt = None, confidence = 0,
                 reason = ''no next_actions in memory''\<rparr>
          else
            (case (case ordinal_pick user_text of
                     None \<Rightarrow> None
                   | Some i \<Rightarrow> if 0 \<le> i \<and> i < int (length actions) then Some i else None) of
               Some ord_idx \<Rightarrow>
                 Inr \<lparr>kind = ''action'', action = Some (actions ! nat ord_idx),
                      clarify_prompt = None, confidence = 90,
                      reason = ''ordinal_pick='' @ str_of_int ord_idx\<rparr>
             | None \<Rightarrow>
                 (case sort_scored (map (\<lambda>a. (a, score_action_match user_text a)) actions) of
                    [] \<Rightarrow> Inl IndexError
                  | (best, best_score) # others \<Rightarrow>
                      let second_score = (case others of [] \<Rightarrow> 0 | x # _ \<Rightarrow> snd x) in
                      if best_score \<ge> 8 \<and> best_score \<ge> second_score + 3 then
                        Inr \<lparr>kind = ''action'', action = Some best, clarify_prompt = None,
                             confidence = 85,
                             reason = ''keyword_match score='' @ str_of_int best_score
                               @ '' margin='' @ str_of_int (best_score - second_score)\<rparr>
                      else if is_ack_or_continue user_text \<and> py_truthy default_id then
                        (case List.find (\<lambda>a. PStr (action_id a) = default_id) actions of
                           Some a \<Rightarrow>
                             Inr \<lparr>kind = ''action'', action = Some a, clarify_prompt = None,
                                  confidence = 80,
                                  reason = ''ack_or_continue -> default_action''\<rparr>
                         | None \<Rightarrow>
                             (case actions of
                                [] \<Rightarrow> Inl IndexError
                              | a # _ \<Rightarrow>
                                  Inr \<lparr>kind = ''action'', action = Some a, clarify_prompt = None,
                                       confidence = 70,
                                       reason = ''ack_or_continue -> default missing -> first_action''\<rparr>))
                      else
                        Inr \<lparr>kind = ''clarify'', action = None,
                             clarify_prompt = Some (clarify_text actions), confidence = 40,
                             reason = ''ambiguous best_score='' @ str_of_int best_score
                               @ '' second_score='' @ str_of_int second_score\<rparr>)))"

section \<open>Confidence scoring (\<^verbatim>\<open>validator.py\<close>)\<close>

text \<open>
  \<^verbatim>\<open>calculate_confidence\<close> reads the clock itself (\<^verbatim>\<open>datetime.now()\<close>) and parses the
  price timestamp with \<^verbatim>\<open>datetime.fromisoformat\<close>. Both belong to the Python library, so the
  model takes them as two extra arguments that the Python function does not have: \<open>now\<close>,
  the reading of the clock during the call, and \<open>fromisoformat\<close>, which gives the parsed time
  of a string, or \<open>None\<close> where the library call or the subtraction from \<open>now\<close> raises.
  Times are integers counting microseconds, as \<^verbatim>\<open>timedelta\<close> does.
\<close>

definition minutes :: "int \<Rightarrow> int" where
  "minutes n = n * 60000000"

definition hours :: "int \<Rightarrow> int" where
  "hours n = n * 3600000000"

text \<open>The \<^verbatim>\<open>try\<close> block: \<open>None\<close> stands for the bare \<^verbatim>\<open>except\<close>, which also catches the
  \<^verbatim>\<open>TypeError\<close> of a timestamp that is no string.\<close>

definition timestamp_age :: "(string \<Rightarrow> int option) \<Rightarrow> int \<Rightarrow> pyval \<Rightarrow> int option" where
  "timestamp_age fromisoformat now timestamp =
     (case timestamp of
        PStr s \<Rightarrow> (case fromisoformat s of None \<Rightarrow> None | Some data_time \<Rightarrow> Some (now - data_time))
      | _ \<Rightarrow> None)"

text \<open>The chain of tests on the age of the price: the points awarded and the note appended
  to the list of missing items.\<close>

definition freshness :: "int \<Rightarrow> int \<times> string list" where
  "freshness age =
     (if age < minutes 20 then (30, [])
      else if age < hours 1 then (25, [])
      else if age < hours 24 then (18, [''Price data is from earlier today''])
      else (10, [''Price data is over 1 day old'']))"

text \<open>Each of the four checks takes the running \<open>(score, missing)\<close> and returns it updated.\<close>

definition check_current ::
  "(string \<Rightarrow> int option) \<Rightarrow> int \<Rightarrow> pyval \<Rightarrow> int \<times> string list \<Rightarrow> py_error + (int \<times> string list)" where
  "check_current fromisoformat now stock_data st =
     (case st of (score, missing) \<Rightarrow>
      case py_get stock_data ''current'' of
        Inl e \<Rightarrow> Inl e
      | Inr current \<Rightarrow>
          (case (if py_truthy current then py_get current ''current_price'' else Inr current) of
             Inl e \<Rightarrow> Inl e
           | Inr price \<Rightarrow>
               if py_truthy current \<and> py_truthy price then
                 (case py_get current ''timestamp'' of
                    Inl e \<Rightarrow> Inl e
                  | Inr timestamp \<Rightarrow>
                      if py_truthy timestamp then
                        (case timestamp_age fromisoformat now timestamp of
                           Some age \<Rightarrow>
                             (case freshness age of (points, note) \<Rightarrow>
                                Inr (score + points, missing @ note))
                         | None \<Rightarrow> Inr (score + 20, missing))
                      else Inr (score + 20, missing))
               else Inr (score, missing @ [''Current price not available''])))"

definition check_company :: "pyval \<Rightarrow> int \<times> string list \<Rightarrow> py_error + (int \<times> string list)" where
  "check_company stock_data st =
     (case st of (score, missing) \<Rightarrow>
      case py_get stock_data ''company'' of
        Inl e \<Rightarrow> Inl e
      | Inr company \<Rightarrow>
          (case (if py_truthy company then py_get company ''company_name'' else Inr company) of
             Inl e \<Rightarrow> Inl e
           | Inr name \<Rightarrow>
               if py_truthy company \<and> py_truthy name then
                 (case company of
                    PDict c \<Rightarrow>
                      let score = score + 20;
                          score = (if py_truthy (dict_get c ''description'') then score + 3 else score);
                          score = (if py_truthy (dict_get c ''sector'') \<and> py_truthy (dict_get c ''industry'')
                                   then score + 2 else score)
                      in Inr (score, missing)
                  | _ \<Rightarrow> Inl AttributeError)
               else Inr (score, missing @ [''Company information not available''])))"

definition check_historical :: "pyval \<Rightarrow> int \<times> string list \<Rightarrow> py_error + (int \<times> string list)" where
  "check_historical stock_data st =
     (case st of (score, missing) \<Rightarrow>
      case py_get stock_data ''historical'' of
        Inl e \<Rightarrow> Inl e
      | Inr historical \<Rightarrow>
          if py_truthy historical then
            (case py_get_default historical ''data_points'' (PInt 0) of
               Inl e \<Rightarrow> Inl e
             | Inr data_points \<Rightarrow>
                 (case py_gt_int data_points 20 of
                    Inl e \<Rightarrow> Inl e
                  | Inr True \<Rightarrow> Inr (score + 20, missing)
                  | Inr False \<Rightarrow>
                      (case py_gt_int data_points 5 of
                         Inl e \<Rightarrow> Inl e
                       | Inr True \<Rightarrow> Inr (score + 12, missing @ [''Limited historical data''])
                       | Inr False \<Rightarrow> Inr (score + 5, missing @ [''Very limited historical data'']))))
          else Inr (score, missing @ [''Historical data not available'']))"

definition check_articles :: "pyval list option \<Rightarrow> int \<times> string list \<Rightarrow> int \<times> string list" where
  "check_articles articles st =
     (case st of (score, missing) \<Rightarrow>
      case articles of
        Some arts \<Rightarrow>
          let article_count = length arts in
          if article_count \<ge> 3 then (score + 30, missing)
          else if article_count \<ge> 2 then
            (score + 20, missing @ [''Limited recent article coverage (only 2 articles)''])
          else if article_count \<ge> 1 then
            (score + 10, missing @ [''Very limited article coverage (only 1 article)''])
          else (score, missing @ [''No recent articles found from trusted sources''])
      | None \<Rightarrow> (score, missing @ [''Article search not performed'']))"

definition determine_level :: "int \<Rightarrow> string" where
  "determine_level score =
     (if score \<ge> 80 then ''HIGH'' else if score \<ge> 50 then ''MEDIUM'' else ''LOW'')"

definition calculate_confidence ::
  "(string \<Rightarrow> int option) \<Rightarrow> int \<Rightarrow> pyval \<Rightarrow> pyval list option
     \<Rightarrow> py_error + (string \<times> int \<times> string list)" where
  "calculate_confidence fromisoformat now stock_data articles =
     (case py_get stock_data ''success'' of
        Inl e \<Rightarrow> Inl e
      | Inr success \<Rightarrow>
          if \<not> py_truthy success then Inr (''LOW'', 0, [''Failed to fetch any data''])
          else
            (case check_current fromisoformat now stock_data (0, []) of
               Inl e \<Rightarrow> Inl e
             | Inr st1 \<Rightarrow>
                 (case check_company stock_data st1 of
                    Inl e \<Rightarrow> Inl e
                  | Inr st2 \<Rightarrow>
                      (case check_historical stock_data st2 of
                         Inl e \<Rightarrow> Inl e
                       | Inr st3 \<Rightarrow>
                           (case check_articles articles st3 of (score, missing) \<Rightarrow>
                              let score = min score 100 in
                              Inr (determine_level score, score, missing))))))"

subsection \<open>Badge, recommendation and the validation result\<close>

record badge_props =
  color :: string
  emoji :: string
  message :: string
  css_class :: string




record validation =
  valid :: bool
  confidence_level :: string
  confidence_score :: int
  badge :: badge_props
  missing_data :: "string list"
  has_current_price :: bool
  has_company_info :: bool
  has_historical_data :: bool
  has_articles :: bool
  article_count :: int
  recommendation :: string



section \<open>Typed inputs and test data\<close>





text \<open>Test data after \<^verbatim>\<open>high_data\<close> of \<^verbatim>\<open>validator.py\<close>, with the timestamp left open and the
  float price replaced by an integer. The parser used with it knows two timestamps; times
  count microseconds from 2025-01-15T10:00:00.\<close>

definition parse_fixture :: "string \<Rightarrow> int option" where
  "parse_fixture s =
     (if s = ''2025-01-15T09:50:00'' then Some (- minutes 10)
      else if s = ''2025-01-13T10:00:00'' then Some (- hours 48)
      else None)"

definition complete_data :: "string \<Rightarrow> (string \<times> pyval) list" where
  "complete_data timestamp =
     [(''ticker'', PStr ''TSLA''), (''success'', PBool True),
      (''current'', PDict [(''current_price'', PInt 421), (''timestamp'', PStr timestamp)]),
      (''company'', PDict [(''company_name'', PStr ''Tesla Inc''),
                           (''sector'', PStr ''CONSUMER CYCLICAL''),
                           (''industry'', PStr ''AUTO MANUFACTURERS''),
                           (''description'', PStr ''Tesla designs and manufactures electric vehicles...'')]),
      (''historical'', PDict [(''data_points'', PInt 50)]),
      (''errors'', PList [])]"

definition four_articles :: "pyval list" where
  "four_articles = replicate 4 (PDict [(''title'', PStr ''News'')])"






text \<open>A memory record after the actions that \<^verbatim>\<open>response_generator.py\<close> offers for a stock
  outlook, with an entry that is no record and an entry without query in between, and the
  three actions it yields.\<close>

definition demo_memory :: "pyval \<Rightarrow> pyval" where
  "demo_memory default_action_id =
     PDict [(''next_actions'', PList [
        PDict [(''id'', PStr ''deep_dive_earnings''),
               (''label'', PStr ''Dive deeper into TSLA earnings''),
               (''query'', PStr ''Dive deeper into TSLA: latest earnings takeaways.''),
               (''keywords'', PList [PStr ''earnings'', PStr ''guidance''])],
        PStr ''not a record'',
        PDict [(''id'', PStr ''deep_dive_key_risks''),
               (''label'', PStr ''Go deeper on TSLA risks''),
               (''query'', PStr ''Dive deeper into TSLA: key risks.''),
               (''keywords'', PList [PStr ''risk'', PStr ''downside''])],
        PDict [(''id'', PStr ''no_query'')],
        PDict [(''id'', PStr ''valuation_sanity_check''),
               (''label'', PStr ''Run a valuation sanity-check on TSLA''),
               (''query'', PStr ''Sanity-check TSLA valuation vs growth and risks.''),
               (''keywords'', PList [PStr ''valuation'', PStr ''priced in''])]]),
      (''default_action_id'', default_action_id)]"

definition demo_actions :: "FollowupAction list" where
  "demo_actions =
     [\<lparr>action_id = ''deep_dive_earnings'', label = ''Dive deeper into TSLA earnings'',
       query = ''Dive deeper into TSLA: latest earnings takeaways.'',
       action_keywords = [''earnings'', ''guidance'']\<rparr>,
      \<lparr>action_id = ''deep_dive_key_risks'', label = ''Go deeper on TSLA risks'',
       query = ''Dive deeper into TSLA: key risks.'',
       action_keywords = [''risk'', ''downside'']\<rparr>,
      \<lparr>action_id = ''valuation_sanity_check'', label = ''Run a valuation sanity-check on TSLA'',
       query = ''Sanity-check TSLA valuation vs growth and risks.'',
       action_keywords = [''valuation'', ''priced in'']\<rparr>]"



section \<open>Properties of the confidence scorer\<close>

subsection \<open>The four checks\<close>

text \<open>Reading a dictionary, and the score as the sum of the four components.\<close>

lemma py_get_dict: "py_get (PDict d) k = Inr (dict_get d k)"
  by (simp add: py_get_def dict_get_def)

lemma py_get_other:
  "py_get PNone k = Inl AttributeError" "py_get (PBool b) k = Inl AttributeError"
  "py_get (PInt n) k = Inl AttributeError" "py_get (PStr s) k = Inl AttributeError"
  "py_get (PList xs) k = Inl AttributeError"
  by (simp_all add: py_get_def)

lemma dict_get_truthy_nonempty: "py_truthy (dict_get d k) \<Longrightarrow> d \<noteq> []"
  by (auto simp: dict_get_def)

lemma check_current_shift:
  "check_current f now sd (s, m) =
     (case check_current f now sd (0, []) of
        Inl e \<Rightarrow> Inl e
      | Inr (p, n) \<Rightarrow> Inr (s + p, m @ n))"
  by (simp add: check_current_def split: sum.splits option.splits prod.splits)

lemma check_company_shift:
  "check_company sd (s, m) =
     (case check_company sd (0, []) of
        Inl e \<Rightarrow> Inl e
      | Inr (p, n) \<Rightarrow> Inr (s + p, m @ n))"
  by (simp add: check_company_def Let_def split: sum.splits pyval.splits)

lemma check_historical_shift:
  "check_historical sd (s, m) =
     (case check_historical sd (0, []) of
        Inl e \<Rightarrow> Inl e
      | Inr (p, n) \<Rightarrow> Inr (s + p, m @ n))"
  by (simp add: check_historical_def split: sum.splits bool.splits)

lemma check_articles_shift:
  "check_articles arts (s, m) =
     (case check_articles arts (0, []) of (p, n) \<Rightarrow> (s + p, m @ n))"
  by (simp add: check_articles_def Let_def split: option.splits)

lemma calculate_confidence_sum:
  assumes "py_truthy (dict_get d ''success'')"
  shows "calculate_confidence f now (PDict d) arts =
     (case check_current f now (PDict d) (0, []) of
        Inl e \<Rightarrow> Inl e
      | Inr (p, m1) \<Rightarrow>
          (case check_company (PDict d) (0, []) of
             Inl e \<Rightarrow> Inl e
           | Inr (c, m2) \<Rightarrow>
               (case check_historical (PDict d) (0, []) of
                  Inl e \<Rightarrow> Inl e
                | Inr (h, m3) \<Rightarrow>
                    (case check_articles arts (0, []) of (a, m4) \<Rightarrow>
                       Inr (determine_level (min (p + c + h + a) 100),
                            min (p + c + h + a) 100, m1 @ m2 @ m3 @ m4)))))"
proof (cases "check_current f now (PDict d) (0, [])")
  case (Inl e)
  then show ?thesis
    using assms by (simp add: calculate_confidence_def py_get_dict)
next
  case (Inr st1)
  obtain p m1 where st1: "st1 = (p, m1)" by (cases st1)
  note cur = Inr [unfolded st1]
  show ?thesis
  proof (cases "check_company (PDict d) (0, [])")
    case (Inl e)
    then show ?thesis
      using assms cur check_company_shift [of "PDict d" p m1]
      by (simp add: calculate_confidence_def py_get_dict)
  next
    case (Inr st2)
    obtain c m2 where st2: "st2 = (c, m2)" by (cases st2)
    note com = Inr [unfolded st2]
    show ?thesis
    proof (cases "check_historical (PDict d) (0, [])")
      case (Inl e)
      then show ?thesis
        using assms cur com check_company_shift [of "PDict d" p m1]
          check_historical_shift [of "PDict d" "p + c" "m1 @ m2"]
        by (simp add: calculate_confidence_def py_get_dict)
    next
      case (Inr st3)
      obtain h m3 where st3: "st3 = (h, m3)" by (cases st3)
      note his = Inr [unfolded st3]
      obtain a m4 where art: "check_articles arts (0, []) = (a, m4)"
        by (cases "check_articles arts (0, [])")
      show ?thesis
        using assms cur com his art check_company_shift [of "PDict d" p m1]
          check_historical_shift [of "PDict d" "p + c" "m1 @ m2"]
          check_articles_shift [of arts "p + c + h" "m1 @ m2 @ m3"]
        by (simp add: calculate_confidence_def py_get_dict Let_def)
    qed
  qed
qed

lemma freshness_nonneg: "0 \<le> fst (freshness age)"
  by (simp add: freshness_def)

lemma freshness_antimono: "a1 \<le> a2 \<Longrightarrow> fst (freshness a2) \<le> fst (freshness a1)"
  by (auto simp: freshness_def)

lemma check_current_parsed:
  assumes "dict_get d ''current'' = PDict c" "py_truthy (dict_get c ''current_price'')"
    and "dict_get c ''timestamp'' = PStr s" "s \<noteq> []" "f s = Some t"
  shows "check_current f now (PDict d) (0, []) = Inr (freshness (now - t))"
  using assms dict_get_truthy_nonempty [of c "''current_price''"]
  by (simp add: check_current_def py_get_dict timestamp_age_def split: prod.splits)

lemma check_current_no_price:
  assumes "dict_get d ''current'' = PDict c" "\<not> py_truthy (dict_get c ''current_price'')"
  shows "check_current f now (PDict d) (0, []) = Inr (0, [''Current price not available''])"
  using assms by (simp add: check_current_def py_get_dict)


lemma check_current_nonneg:
  "check_current f now sd (0, []) = Inr (p, m) \<Longrightarrow> 0 \<le> p"
  by (auto simp: check_current_def freshness_def split: sum.splits if_splits option.splits prod.splits)

lemma check_company_nonneg:
  "check_company sd (0, []) = Inr (p, m) \<Longrightarrow> 0 \<le> p"
  by (auto simp: check_company_def Let_def split: sum.splits if_splits pyval.splits)

lemma check_historical_nonneg:
  "check_historical sd (0, []) = Inr (p, m) \<Longrightarrow> 0 \<le> p"
  by (auto simp: check_historical_def split: sum.splits if_splits bool.splits)

lemma check_articles_nonneg:
  "check_articles arts (0, []) = (p, m) \<Longrightarrow> 0 \<le> p"
  by (auto simp: check_articles_def Let_def split: option.splits if_splits)

lemma check_company_full:
  assumes "dict_get d ''company'' = PDict co" "py_truthy (dict_get co ''company_name'')"
    and "py_truthy (dict_get co ''description'')" "py_truthy (dict_get co ''sector'')"
    and "py_truthy (dict_get co ''industry'')"
  shows "check_company (PDict d) (0, []) = Inr (25, [])"
  using assms dict_get_truthy_nonempty [of co "''company_name''"]
  by (simp add: check_company_def py_get_dict)

lemma check_historical_many:
  assumes "dict_get d ''historical'' = PDict h" "dict_get h ''data_points'' = PInt n" "20 < n"
  shows "check_historical (PDict d) (0, []) = Inr (20, [])"
proof -
  have "h \<noteq> []" using assms(2) by (auto simp: dict_get_def)
  moreover have "map_of h ''data_points'' = Some (PInt n)"
    using assms(2) by (auto simp: dict_get_def split: option.splits)
  ultimately show ?thesis
    using assms by (simp add: check_historical_def py_get_dict)
qed

lemma check_company_cong:
  "dict_get d1 ''company'' = dict_get d2 ''company''
   \<Longrightarrow> check_company (PDict d1) st = check_company (PDict d2) st"
  by (simp add: check_company_def py_get_dict)

lemma check_historical_cong:
  "dict_get d1 ''historical'' = dict_get d2 ''historical''
   \<Longrightarrow> check_historical (PDict d1) st = check_historical (PDict d2) st"
  by (simp add: check_historical_def py_get_dict)

lemma check_current_clock:
  assumes "\<forall>c s t. dict_get d ''current'' = PDict c \<and> dict_get c ''timestamp'' = PStr s
             \<and> f s = Some t \<longrightarrow> freshness (now1 - t) = freshness (now2 - t)"
  shows "check_current f now1 (PDict d) st = check_current f now2 (PDict d) st"
proof (cases "dict_get d ''current''")
  case (PDict c)
  obtain score missing where st: "st = (score, missing)" by (cases st)
  show ?thesis
  proof (cases "dict_get c ''timestamp''")
    case (PStr s)
    show ?thesis
    proof (cases "f s")
      case None
      then show ?thesis
        using PDict PStr by (simp add: st check_current_def py_get_dict timestamp_age_def)
    next
      case (Some t)
      then have "freshness (now1 - t) = freshness (now2 - t)"
        using assms PDict PStr by blast
      then show ?thesis
        using PDict PStr Some by (simp add: st check_current_def py_get_dict timestamp_age_def)
    qed
  qed (use PDict in \<open>simp_all add: st check_current_def py_get_dict timestamp_age_def\<close>)
qed (simp_all add: check_current_def py_get_dict py_get_other split: prod.splits)

lemma calculate_confidence_clock:
  assumes "\<forall>c s t. dict_get d ''current'' = PDict c \<and> dict_get c ''timestamp'' = PStr s
             \<and> f s = Some t \<longrightarrow> freshness (now1 - t) = freshness (now2 - t)"
  shows "calculate_confidence f now1 (PDict d) arts = calculate_confidence f now2 (PDict d) arts"
  by (cases "py_truthy (dict_get d ''success'')")
     (simp_all add: calculate_confidence_def py_get_dict check_current_clock [OF assms])





subsection \<open>The claims about the scorer\<close>




text \<open>
  Claim C5. A bundle with \<^verbatim>\<open>success\<close> true, a current price, a timestamp that parses and is
  less than 20 minutes old at the time of the call, a company profile with name,
  description, sector and industry, \<^verbatim>\<open>data_points = 50\<close> and four articles scores exactly
  100 with level HIGH and nothing missing: the components are 30, 25, 20 and 30, their sum
  105 is capped. In general every returned score lies between 0 and 100 and the level is
  the classification of the capped score.
\<close>

theorem complete_fresh_bundle_scores_100:
  "(py_truthy (dict_get d ''success'')
    \<and> dict_get d ''current'' = PDict c \<and> py_truthy (dict_get c ''current_price'')
    \<and> dict_get c ''timestamp'' = PStr s \<and> s \<noteq> [] \<and> fromisoformat s = Some t
    \<and> now - t < minutes 20
    \<and> dict_get d ''company'' = PDict co \<and> py_truthy (dict_get co ''company_name'')
    \<and> py_truthy (dict_get co ''description'') \<and> py_truthy (dict_get co ''sector'')
    \<and> py_truthy (dict_get co ''industry'')
    \<and> dict_get d ''historical'' = PDict h \<and> dict_get h ''data_points'' = PInt 50
    \<and> length arts = 4
    \<longrightarrow> calculate_confidence fromisoformat now (PDict d) (Some arts) = Inr (''HIGH'', 100, []))
   \<and> (calculate_confidence fromisoformat now sd articles = Inr (level, score, missing)
    \<longrightarrow> 0 \<le> score \<and> score \<le> 100 \<and> level = determine_level score)"
proof (intro conjI impI)
  assume h: "py_truthy (dict_get d ''success'')
    \<and> dict_get d ''current'' = PDict c \<and> py_truthy (dict_get c ''current_price'')
    \<and> dict_get c ''timestamp'' = PStr s \<and> s \<noteq> [] \<and> fromisoformat s = Some t
    \<and> now - t < minutes 20
    \<and> dict_get d ''company'' = PDict co \<and> py_truthy (dict_get co ''company_name'')
    \<and> py_truthy (dict_get co ''description'') \<and> py_truthy (dict_get co ''sector'')
    \<and> py_truthy (dict_get co ''industry'')
    \<and> dict_get d ''historical'' = PDict h \<and> dict_get h ''data_points'' = PInt 50
    \<and> length arts = 4"
  have cur: "check_current fromisoformat now (PDict d) (0, []) = Inr (30, [])"
    using h check_current_parsed [of d c s fromisoformat t now] by (simp add: freshness_def)
  have com: "check_company (PDict d) (0, []) = Inr (25, [])"
    using h check_company_full [of d co] by simp
  have his: "check_historical (PDict d) (0, []) = Inr (20, [])"
    using h check_historical_many [of d h 50] by simp
  have art: "check_articles (Some arts) (0, []) = (30, [])"
    using h by (simp add: check_articles_def)
  show "calculate_confidence fromisoformat now (PDict d) (Some arts) = Inr (''HIGH'', 100, [])"
    using h by (simp add: calculate_confidence_sum cur com his art determine_level_def)
next
  assume r: "calculate_confidence fromisoformat now sd articles = Inr (level, score, missing)"
  show "0 \<le> score"
  proof (cases sd)
    case (PDict d)
    show ?thesis
    proof (cases "py_truthy (dict_get d ''success'')")
      case True
      show ?thesis
        using r [unfolded PDict calculate_confidence_sum [OF True]]
        by (auto split: sum.splits prod.splits
            dest!: check_current_nonneg check_company_nonneg check_historical_nonneg
              check_articles_nonneg)
    next
      case False
      then show ?thesis
        using r PDict by (simp add: calculate_confidence_def py_get_dict)
    qed
  qed (use r in \<open>simp_all add: calculate_confidence_def py_get_def\<close>)
  show "score \<le> 100"
    using r by (auto simp: calculate_confidence_def Let_def split: sum.splits if_splits prod.splits)
  show "level = determine_level score"
    using r by (auto simp: calculate_confidence_def Let_def determine_level_def
        split: sum.splits if_splits prod.splits)
qed

theorem complete_fresh_bundle_scores_100_witness:
  "calculate_confidence parse_fixture 0 (PDict (complete_data ''2025-01-15T09:50:00''))
     (Some four_articles) = Inr (''HIGH'', 100, [])
   \<and> (0::int) \<le> 100 \<and> (100::int) \<le> 100 \<and> ''HIGH'' = determine_level 100"
proof -
  have fresh: "(0::int) - (- minutes 10) < minutes 20"
    by (simp add: minutes_def)
  have run: "calculate_confidence parse_fixture 0 (PDict (complete_data ''2025-01-15T09:50:00''))
     (Some four_articles) = Inr (''HIGH'', 100, [])"
    using fresh complete_fresh_bundle_scores_100
      [where d = "complete_data ''2025-01-15T09:50:00''"
         and c = "[(''current_price'', PInt 421), (''timestamp'', PStr ''2025-01-15T09:50:00'')]"
         and s = "''2025-01-15T09:50:00''" and fromisoformat = parse_fixture
         and t = "- minutes 10" and now = 0
         and co = "[(''company_name'', PStr ''Tesla Inc''),
                    (''sector'', PStr ''CONSUMER CYCLICAL''),
                    (''industry'', PStr ''AUTO MANUFACTURERS''),
                    (''description'', PStr ''Tesla designs and manufactures electric vehicles...'')]"
         and h = "[(''data_points'', PInt 50)]" and arts = four_articles]
    by (simp add: complete_data_def dict_get_def parse_fixture_def four_articles_def)
  from run complete_fresh_bundle_scores_100
      [where sd = "PDict (complete_data ''2025-01-15T09:50:00'')" and fromisoformat = parse_fixture
         and now = 0 and articles = "Some four_articles" and level = "''HIGH''"
         and score = 100 and missing = "[]"]
  show ?thesis by simp
qed

text \<open>
  Claim C6. The score is monotonic in the freshness of the price. Take two bundles that
  agree on every key except \<^verbatim>\<open>current\<close>, whose \<^verbatim>\<open>current\<close> dictionaries agree on every key
  except \<^verbatim>\<open>timestamp\<close>, and whose timestamps are non-empty strings that parse. If the first
  price is no older than the second at the time of the call (10 minutes against 2 days, for
  one), then either both calls raise the same error or both return, and the score of the
  fresher bundle is at least the score of the older one. The points per bucket, 30, 25, 18
  and 10, do not increase with age (\<open>freshness_antimono\<close>).
\<close>

theorem fresher_price_scores_no_less:
  assumes rest: "\<forall>k. k \<noteq> ''current'' \<longrightarrow> dict_get d1 k = dict_get d2 k"
    and cur: "dict_get d1 ''current'' = PDict c1" "dict_get d2 ''current'' = PDict c2"
    and cur_rest: "\<forall>k. k \<noteq> ''timestamp'' \<longrightarrow> dict_get c1 k = dict_get c2 k"
    and ts1: "dict_get c1 ''timestamp'' = PStr s1" "s1 \<noteq> []" "fromisoformat s1 = Some t1"
    and ts2: "dict_get c2 ''timestamp'' = PStr s2" "s2 \<noteq> []" "fromisoformat s2 = Some t2"
    and age: "now - t1 \<le> now - t2"
  shows "(\<exists>e. calculate_confidence fromisoformat now (PDict d1) articles = Inl e
            \<and> calculate_confidence fromisoformat now (PDict d2) articles = Inl e)
       \<or> (\<exists>l1 p1 m1 l2 p2 m2.
            calculate_confidence fromisoformat now (PDict d1) articles = Inr (l1, p1, m1)
            \<and> calculate_confidence fromisoformat now (PDict d2) articles = Inr (l2, p2, m2)
            \<and> p2 \<le> p1)"
proof (cases "py_truthy (dict_get d1 ''success'')")
  case False
  moreover have "dict_get d2 ''success'' = dict_get d1 ''success''"
    using rest by simp
  ultimately show ?thesis
    by (simp add: calculate_confidence_def py_get_dict)
next
  case True
  have True2: "py_truthy (dict_get d2 ''success'')"
    using rest True by simp
  have com: "check_company (PDict d1) (0, []) = check_company (PDict d2) (0, [])"
    using rest by (intro check_company_cong) simp
  have his: "check_historical (PDict d1) (0, []) = check_historical (PDict d2) (0, [])"
    using rest by (intro check_historical_cong) simp
  have price: "dict_get c1 ''current_price'' = dict_get c2 ''current_price''"
    using cur_rest by simp
  obtain q1 n1 q2 n2 where
    c1: "check_current fromisoformat now (PDict d1) (0, []) = Inr (q1, n1)" and
    c2: "check_current fromisoformat now (PDict d2) (0, []) = Inr (q2, n2)" and
    le: "q2 \<le> q1"
  proof (cases "py_truthy (dict_get c1 ''current_price'')")
    case True
    have "check_current fromisoformat now (PDict d1) (0, []) = Inr (freshness (now - t1))"
      using cur ts1 True by (intro check_current_parsed) simp_all
    moreover have "check_current fromisoformat now (PDict d2) (0, []) = Inr (freshness (now - t2))"
      using cur ts2 True price by (intro check_current_parsed) simp_all
    moreover note freshness_antimono [OF age]
    ultimately show ?thesis
      using that [of "fst (freshness (now - t1))" "snd (freshness (now - t1))"
          "fst (freshness (now - t2))" "snd (freshness (now - t2))"]
      by simp
  next
    case False
    then have "check_current fromisoformat now (PDict d1) (0, [])
                 = Inr (0, [''Current price not available''])"
      "check_current fromisoformat now (PDict d2) (0, [])
                 = Inr (0, [''Current price not available''])"
      using cur price by (simp_all add: check_current_no_price)
    then show ?thesis using that by simp
  qed
  show ?thesis
  proof (cases "check_company (PDict d2) (0, [])")
    case (Inl e)
    then show ?thesis
      by (simp add: calculate_confidence_sum True True2 c1 c2 com)
  next
    case com2: (Inr st2)
    show ?thesis
    proof (cases "check_historical (PDict d2) (0, [])")
      case (Inl e)
      then show ?thesis
        using com2 by (simp add: calculate_confidence_sum True True2 c1 c2 com his split: prod.splits)
    next
      case (Inr st3)
      then show ?thesis
        using com2 le
        by (auto simp: calculate_confidence_sum True True2 c1 c2 com his split: prod.splits)
    qed
  qed
qed

theorem fresher_price_scores_no_less_witness:
  "(0::int) - (- minutes 10) \<le> 0 - (- hours 48)
   \<and> ((\<exists>e. calculate_confidence parse_fixture 0 (PDict (complete_data ''2025-01-15T09:50:00'')) None = Inl e
          \<and> calculate_confidence parse_fixture 0 (PDict (complete_data ''2025-01-13T10:00:00'')) None = Inl e)
     \<or> (\<exists>l1 p1 m1 l2 p2 m2.
            calculate_confidence parse_fixture 0 (PDict (complete_data ''2025-01-15T09:50:00'')) None
              = Inr (l1, p1, m1)
          \<and> calculate_confidence parse_fixture 0 (PDict (complete_data ''2025-01-13T10:00:00'')) None
              = Inr (l2, p2, m2)
          \<and> p2 \<le> p1))"
proof -
  have age: "(0::int) - (- minutes 10) \<le> 0 - (- hours 48)"
    by (simp add: minutes_def hours_def)
  have rest: "\<forall>k. k \<noteq> ''current'' \<longrightarrow>
      dict_get (complete_data ''2025-01-15T09:50:00'') k = dict_get (complete_data ''2025-01-13T10:00:00'') k"
    by (simp add: complete_data_def dict_get_def)
  have cur_rest: "\<forall>k. k \<noteq> ''timestamp'' \<longrightarrow>
      dict_get [(''current_price'', PInt 421), (''timestamp'', PStr ''2025-01-15T09:50:00'')] k
      = dict_get [(''current_price'', PInt 421), (''timestamp'', PStr ''2025-01-13T10:00:00'')] k"
    by (simp add: dict_get_def)
  show ?thesis
    using age fresher_price_scores_no_less [OF rest _ _ cur_rest _ _ _ _ _ _ age,
        of "''2025-01-15T09:50:00''" parse_fixture "''2025-01-13T10:00:00''" None]
    by (simp add: complete_data_def dict_get_def parse_fixture_def)
qed

section \<open>Properties of the follow-up router\<close>

subsection \<open>The text is read through its normal form\<close>

lemma tokens_cong:
  assumes "normalize_text t1 = normalize_text t2"
  shows "tokens t1 = tokens t2"
  unfolding tokens_def assms by (rule refl)

lemma ordinal_pick_cong:
  assumes "normalize_text t1 = normalize_text t2"
  shows "ordinal_pick t1 = ordinal_pick t2"
  unfolding ordinal_pick_def tokens_def assms by (rule refl)

lemma score_action_match_cong:
  assumes "normalize_text t1 = normalize_text t2"
  shows "score_action_match t1 = score_action_match t2"
  unfolding score_action_match_def tokens_def assms by (rule refl)

lemma is_ack_or_continue_cong:
  assumes "normalize_text t1 = normalize_text t2"
  shows "is_ack_or_continue t1 = is_ack_or_continue t2"
  unfolding is_ack_or_continue_def assms by (rule refl)

lemma resolve_followup_cong:
  assumes "normalize_text t1 = normalize_text t2"
    and "load_actions_from_memory m1 = load_actions_from_memory m2"
  shows "resolve_followup t1 m1 = resolve_followup t2 m2"
  unfolding resolve_followup_def assms(2) ordinal_pick_cong [OF assms(1)]
    score_action_match_cong [OF assms(1)] is_ack_or_continue_cong [OF assms(1)]
  by (rule refl)

subsection \<open>An empty normal form\<close>

lemma tokens_empty: "normalize_text t = [] \<Longrightarrow> tokens t = []"
  by (simp add: tokens_def)

lemma ordinal_pick_empty: "normalize_text t = [] \<Longrightarrow> ordinal_pick t = None"
  by (simp add: ordinal_pick_def tokens_def)

lemma score_action_match_empty: "normalize_text t = [] \<Longrightarrow> score_action_match t a = 0"
  by (simp add: score_action_match_def tokens_def)

lemma is_ack_or_continue_empty: "normalize_text t = [] \<Longrightarrow> \<not> is_ack_or_continue t"
  by (simp add: is_ack_or_continue_def)

subsection \<open>The sorted scores\<close>

text \<open>The sort keeps the length, puts a highest score first and, among equal scores, the
  action that came first.\<close>

lemma sort_scored_length: "length (sort_scored xs) = length xs"
  by (simp add: sort_scored_def)

lemma sort_scored_set: "set (sort_scored xs) = set xs"
  by (simp add: sort_scored_def)

lemma sort_scored_nonempty:
  assumes "xs \<noteq> []"
  obtains best best_score others where "sort_scored xs = (best, best_score) # others"
proof -
  have "sort_scored xs \<noteq> []"
    using assms sort_scored_length [of xs] by (metis length_0_conv)
  then show ?thesis
    using that by (cases "sort_scored xs") auto
qed



lemma sort_scored_constant:
  assumes "\<forall>x \<in> set xs. snd x = c"
  shows "sort_scored xs = xs"
proof -
  have "map (\<lambda>x. - snd x) xs = replicate (length xs) (- c)"
    using assms by (induction xs) auto
  then have "sorted (map (\<lambda>x. - snd x) xs)"
    by (simp add: sorted_replicate)
  then show ?thesis
    unfolding sort_scored_def by (rule sort_key_id_if_sorted)
qed

subsection \<open>Loading the actions\<close>

lemma load_action_valid:
  "load_action a = Inr (Some x) \<Longrightarrow> action_id x \<noteq> [] \<and> query x \<noteq> []"
  by (cases a) (auto simp: load_action_def Let_def split: if_splits sum.splits)

lemma load_actions_loop_valid:
  "load_actions_loop items acc = Inr actions
   \<Longrightarrow> \<forall>x \<in> set acc. action_id x \<noteq> [] \<and> query x \<noteq> []
   \<Longrightarrow> \<forall>x \<in> set actions. action_id x \<noteq> [] \<and> query x \<noteq> []"
proof (induction items arbitrary: acc)
  case Nil
  then show ?case by simp
next
  case (Cons a items)
  show ?case
  proof (cases "load_action a")
    case (Inl e)
    then show ?thesis using Cons.prems by simp
  next
    case (Inr r)
    show ?thesis
    proof (cases r)
      case None
      then show ?thesis using Cons Inr by simp
    next
      case (Some x)
      then have "load_actions_loop items (acc @ [x]) = Inr actions"
        using Cons.prems Inr by simp
      moreover have "\<forall>y \<in> set (acc @ [x]). action_id y \<noteq> [] \<and> query y \<noteq> []"
        using Cons.prems(2) load_action_valid [of a x] Inr Some by auto
      ultimately show ?thesis by (rule Cons.IH)
    qed
  qed
qed

lemma load_actions_from_memory_valid:
  assumes "load_actions_from_memory mem = Inr (actions, default_id)"
  shows "(\<forall>x \<in> set actions. action_id x \<noteq> [] \<and> query x \<noteq> [])
       \<and> (actions \<noteq> [] \<longrightarrow> py_truthy default_id)"
proof -
  obtain items where loop: "load_actions_loop items [] = Inr actions"
    using assms by (auto simp: load_actions_from_memory_def Let_def split: sum.splits)
  have ids: "\<forall>x \<in> set actions. action_id x \<noteq> [] \<and> query x \<noteq> []"
    using load_actions_loop_valid [OF loop] by simp
  moreover have "py_truthy default_id" if "actions \<noteq> []"
  proof -
    have "action_id (hd actions) \<noteq> []" using ids that by simp
    then show ?thesis
      using assms that
      by (auto simp: load_actions_from_memory_def Let_def split: sum.splits if_splits)
  qed
  ultimately show ?thesis by blast
qed

lemma load_actions_from_memory_default:
  assumes "load_actions_from_memory (PDict d) = Inr (actions, default_id)"
  shows "default_id =
           (if \<not> py_truthy (dict_get d ''default_action_id'') \<and> actions \<noteq> []
            then PStr (action_id (hd actions)) else dict_get d ''default_action_id'')"
proof -
  have "py_or (PDict d) (PDict []) = PDict d"
    by (simp add: py_or_def)
  then show ?thesis
    using assms
    by (auto simp: load_actions_from_memory_def py_get_dict Let_def split: sum.splits if_splits)
qed




subsection \<open>The steps of the resolver\<close>

lemma resolve_followup_no_actions:
  assumes "load_actions_from_memory mem = Inr ([], default_id)"
  shows "resolve_followup t mem =
     Inr \<lparr>kind = ''none'', action = None, clarify_prompt = None, confidence = 0,
          reason = ''no next_actions in memory''\<rparr>"
  using assms by (simp add: resolve_followup_def)

lemma resolve_followup_ordinal:
  assumes "load_actions_from_memory mem = Inr (actions, default_id)"
    and "ordinal_pick t = Some i" "0 \<le> i" "i < int (length actions)"
  shows "resolve_followup t mem =
     Inr \<lparr>kind = ''action'', action = Some (actions ! nat i), clarify_prompt = None,
          confidence = 90, reason = ''ordinal_pick='' @ str_of_int i\<rparr>"
proof -
  have "actions \<noteq> []" using assms(3,4) by auto
  then show ?thesis
    using assms by (simp add: resolve_followup_def)
qed

lemma resolve_followup_later_steps:
  assumes load: "load_actions_from_memory mem = Inr (actions, default_id)"
    and ne: "actions \<noteq> []"
    and noord: "\<forall>i. ordinal_pick t = Some i \<longrightarrow> \<not> (0 \<le> i \<and> i < int (length actions))"
    and sorted: "sort_scored (map (\<lambda>a. (a, score_action_match t a)) actions)
                   = (best, best_score) # others"
    and second: "second_score = (case others of [] \<Rightarrow> 0 | x # _ \<Rightarrow> snd x)"
  shows "resolve_followup t mem =
     (if best_score \<ge> 8 \<and> best_score \<ge> second_score + 3 then
        Inr \<lparr>kind = ''action'', action = Some best, clarify_prompt = None, confidence = 85,
             reason = ''keyword_match score='' @ str_of_int best_score
               @ '' margin='' @ str_of_int (best_score - second_score)\<rparr>
      else if is_ack_or_continue t then
        (case List.find (\<lambda>a. PStr (action_id a) = default_id) actions of
           Some a \<Rightarrow>
             Inr \<lparr>kind = ''action'', action = Some a, clarify_prompt = None, confidence = 80,
                  reason = ''ack_or_continue -> default_action''\<rparr>
         | None \<Rightarrow>
             Inr \<lparr>kind = ''action'', action = Some (hd actions), clarify_prompt = None,
                  confidence = 70,
                  reason = ''ack_or_continue -> default missing -> first_action''\<rparr>)
      else
        Inr \<lparr>kind = ''clarify'', action = None, clarify_prompt = Some (clarify_text actions),
             confidence = 40,
             reason = ''ambiguous best_score='' @ str_of_int best_score
               @ '' second_score='' @ str_of_int second_score\<rparr>)"
proof -
  have pick: "(case ordinal_pick t of
                 None \<Rightarrow> None
               | Some i \<Rightarrow> if 0 \<le> i \<and> i < int (length actions) then Some i else None) = None"
    using noord by (cases "ordinal_pick t") auto
  have truthy: "py_truthy default_id"
    using load_actions_from_memory_valid [OF load] ne by simp
  have first: "(case actions of [] \<Rightarrow> x | a # _ \<Rightarrow> f a) = f (hd actions)" for x f
    using ne by (cases actions) auto
  show ?thesis
    unfolding resolve_followup_def load
    using ne sorted truthy
    by (simp add: pick second Let_def first split: option.splits)
qed


subsection \<open>The test data\<close>

lemma load_demo:
  "load_actions_from_memory (demo_memory (PStr ''deep_dive_key_risks''))
     = Inr (demo_actions, PStr ''deep_dive_key_risks'')"
  by code_simp

lemma load_demo_none:
  "load_actions_from_memory (demo_memory PNone)
     = Inr (demo_actions, PStr ''deep_dive_earnings'')"
  by code_simp

lemma load_demo_stale:
  "load_actions_from_memory (demo_memory (PStr ''compare_ev_valuation''))
     = Inr (demo_actions, PStr ''compare_ev_valuation'')"
  by code_simp


lemma demo_memory_dict:
  "demo_memory x = PDict [(''next_actions'', PList [
        PDict [(''id'', PStr ''deep_dive_earnings''),
               (''label'', PStr ''Dive deeper into TSLA earnings''),
               (''query'', PStr ''Dive deeper into TSLA: latest earnings takeaways.''),
               (''keywords'', PList [PStr ''earnings'', PStr ''guidance''])],
        PStr ''not a record'',
        PDict [(''id'', PStr ''deep_dive_key_risks''),
               (''label'', PStr ''Go deeper on TSLA risks''),
               (''query'', PStr ''Dive deeper into TSLA: key risks.''),
               (''keywords'', PList [PStr ''risk'', PStr ''downside''])],
        PDict [(''id'', PStr ''no_query'')],
        PDict [(''id'', PStr ''valuation_sanity_check''),
               (''label'', PStr ''Run a valuation sanity-check on TSLA''),
               (''query'', PStr ''Sanity-check TSLA valuation vs growth and risks.''),
               (''keywords'', PList [PStr ''valuation'', PStr ''priced in''])]]),
      (''default_action_id'', x)]"
  by (simp add: demo_memory_def)

subsection \<open>The claims about the router\<close>

text \<open>
  Claim C1, amended. Let the memory record yield the actions, and let \<open>i\<close> be an index
  within their bounds. If the first token of the text that belongs to the ordinal vocabulary
  maps to \<open>i\<close>, or if no token belongs to the vocabulary and the leftmost match of
  \<^verbatim>\<open>option N\<close> or \<^verbatim>\<open>choice N\<close> in the normalized text gives \<open>i = N - 1\<close>, then
  \<^verbatim>\<open>resolve_followup\<close> returns the action at index \<open>i\<close> with kind \<^verbatim>\<open>action\<close> and confidence
  90, whatever the keyword scores of the actions are.
\<close>

theorem ordinal_reference_wins:
  assumes load: "load_actions_from_memory mem = Inr (actions, default_id)"
    and bounds: "0 \<le> i" "i < int (length actions)"
    and ref: "(\<exists>w. List.find (\<lambda>w. map_of ORDINAL_MAP w \<noteq> None) (tokens t) = Some w
                 \<and> map_of ORDINAL_MAP w = Some i)
            \<or> (List.find (\<lambda>w. map_of ORDINAL_MAP w \<noteq> None) (tokens t) = None
                 \<and> (\<exists>n. search_option_choice False (normalize_text t) = Some n \<and> i = n - 1))"
  shows "resolve_followup t mem =
     Inr \<lparr>kind = ''action'', action = Some (actions ! nat i), clarify_prompt = None,
          confidence = 90, reason = ''ordinal_pick='' @ str_of_int i\<rparr>"
proof -
  have "ordinal_pick t = Some i"
    using ref bounds(1) by (auto simp: ordinal_pick_def)
  then show ?thesis
    by (rule resolve_followup_ordinal [OF load _ bounds])
qed

theorem ordinal_reference_wins_witness:
  "resolve_followup ''the first one please'' (demo_memory PNone) =
     Inr \<lparr>kind = ''action'', action = Some (demo_actions ! 0), clarify_prompt = None,
          confidence = 90, reason = ''ordinal_pick=0''\<rparr>
   \<and> resolve_followup ''Option 2!'' (demo_memory PNone) =
     Inr \<lparr>kind = ''action'', action = Some (demo_actions ! 1), clarify_prompt = None,
          confidence = 90, reason = ''ordinal_pick=1''\<rparr>"
proof -
  have first: "List.find (\<lambda>w. map_of ORDINAL_MAP w \<noteq> None) (tokens ''the first one please'')
                 = Some ''first'' \<and> map_of ORDINAL_MAP ''first'' = Some 0"
    by code_simp
  have second: "List.find (\<lambda>w. map_of ORDINAL_MAP w \<noteq> None) (tokens ''Option 2!'') = None
                 \<and> search_option_choice False (normalize_text ''Option 2!'') = Some 2"
    by code_simp
  have len: "length demo_actions = 3"
    by (simp add: demo_actions_def)
  have s0: "str_of_int 0 = ''0''" "str_of_int 1 = ''1''"
    by code_simp+
  show ?thesis
    using ordinal_reference_wins [OF load_demo_none, of 0 "''the first one please''"]
      ordinal_reference_wins [OF load_demo_none, of 1 "''Option 2!''"] first second len s0
    by simp
qed

text \<open>
  The claim as stated fails where both kinds of reference occur: the pattern is looked for
  only when no token is in the vocabulary. In \<^verbatim>\<open>option 1 of the four\<close> the pattern gives
  \<open>N = 1\<close>, index 0, which is in bounds for three actions; the token \<^verbatim>\<open>four\<close> gives index
  3, which is not, and the resolver asks to clarify.
\<close>

theorem ordinal_pattern_shadowed_counterexample:
  "search_option_choice False (normalize_text ''option 1 of the four'') = Some 1
   \<and> resolve_followup ''option 1 of the four'' (demo_memory PNone) =
       Inr \<lparr>kind = ''clarify'', action = None, clarify_prompt = Some (clarify_text demo_actions),
            confidence = 40, reason = ''ambiguous best_score=0 second_score=0''\<rparr>"
  by code_simp




text \<open>
  Claim C4. Let the memory record be a dictionary that yields at least one action, and let
  the text be an acknowledgment with no ordinal reference and keyword score 0 for every
  action. If the record's \<^verbatim>\<open>default_action_id\<close> equals the id of some action, the result is
  the first action with that id, kind \<^verbatim>\<open>action\<close>, confidence 80. If the
  \<^verbatim>\<open>default_action_id\<close> is present (truthy) and equals no action's id, the result is the first
  action of the list, kind \<^verbatim>\<open>action\<close>, confidence 70, with the reason
  \<^verbatim>\<open>ack_or_continue -> default missing -> first_action\<close>.
\<close>

theorem acknowledgement_takes_default:
  assumes load: "load_actions_from_memory (PDict d) = Inr (actions, default_id)"
    and ne: "actions \<noteq> []"
    and ack: "is_ack_or_continue t"
    and noord: "ordinal_pick t = None"
    and noscore: "\<forall>a \<in> set actions. score_action_match t a = 0"
  shows "(\<forall>a. List.find (\<lambda>a. PStr (action_id a) = dict_get d ''default_action_id'') actions = Some a
            \<longrightarrow> resolve_followup t (PDict d) =
                  Inr \<lparr>kind = ''action'', action = Some a, clarify_prompt = None, confidence = 80,
                       reason = ''ack_or_continue -> default_action''\<rparr>)
       \<and> (py_truthy (dict_get d ''default_action_id'')
           \<and> List.find (\<lambda>a. PStr (action_id a) = dict_get d ''default_action_id'') actions = None
            \<longrightarrow> resolve_followup t (PDict d) =
                  Inr \<lparr>kind = ''action'', action = Some (hd actions), clarify_prompt = None,
                       confidence = 70,
                       reason = ''ack_or_continue -> default missing -> first_action''\<rparr>)"
proof -
  let ?raw = "dict_get d ''default_action_id''"
  let ?xs = "map (\<lambda>a. (a, score_action_match t a)) actions"
  obtain b bs others where sorted: "sort_scored ?xs = (b, bs) # others"
    using ne sort_scored_nonempty [of ?xs] by auto
  have "(b, bs) \<in> set ?xs"
    using sorted sort_scored_set [of ?xs] by (metis list.set_intros(1))
  then have bs: "bs = 0"
    using noscore by auto
  have noord': "\<forall>i. ordinal_pick t = Some i \<longrightarrow> \<not> (0 \<le> i \<and> i < int (length actions))"
    using noord by simp
  have steps: "resolve_followup t (PDict d) =
        (case List.find (\<lambda>a. PStr (action_id a) = default_id) actions of
           Some a \<Rightarrow>
             Inr \<lparr>kind = ''action'', action = Some a, clarify_prompt = None, confidence = 80,
                  reason = ''ack_or_continue -> default_action''\<rparr>
         | None \<Rightarrow>
             Inr \<lparr>kind = ''action'', action = Some (hd actions), clarify_prompt = None,
                  confidence = 70,
                  reason = ''ack_or_continue -> default missing -> first_action''\<rparr>)"
    using resolve_followup_later_steps [OF load ne noord' sorted refl] ack
    by (simp add: bs)
  have did: "default_id = (if \<not> py_truthy ?raw \<and> actions \<noteq> []
                           then PStr (action_id (hd actions)) else ?raw)"
    using load by (rule load_actions_from_memory_default)
  have ids: "\<forall>x \<in> set actions. action_id x \<noteq> []"
    using load_actions_from_memory_valid [OF load] by simp
  have matched: "default_id = ?raw"
    if "List.find (\<lambda>a. PStr (action_id a) = ?raw) actions = Some a" for a
  proof -
    have "a \<in> set actions" "PStr (action_id a) = ?raw"
      using that by (auto simp: find_Some_iff)
    then have "py_truthy ?raw"
      using ids by (metis py_truthy.simps(4))
    then show ?thesis using did by simp
  qed
  show ?thesis
  proof (intro conjI allI impI)
    fix a assume f: "List.find (\<lambda>a. PStr (action_id a) = ?raw) actions = Some a"
    show "resolve_followup t (PDict d) =
                  Inr \<lparr>kind = ''action'', action = Some a, clarify_prompt = None, confidence = 80,
                       reason = ''ack_or_continue -> default_action''\<rparr>"
      using f by (simp add: steps matched [OF f])
  next
    assume "py_truthy ?raw \<and> List.find (\<lambda>a. PStr (action_id a) = ?raw) actions = None"
    then show "resolve_followup t (PDict d) =
                  Inr \<lparr>kind = ''action'', action = Some (hd actions), clarify_prompt = None,
                       confidence = 70,
                       reason = ''ack_or_continue -> default missing -> first_action''\<rparr>"
      using did by (simp add: steps)
  qed
qed

theorem acknowledgement_takes_default_witness:
  "resolve_followup ''yeah do that'' (demo_memory (PStr ''deep_dive_key_risks'')) =
     Inr \<lparr>kind = ''action'', action = Some (demo_actions ! 1), clarify_prompt = None,
          confidence = 80, reason = ''ack_or_continue -> default_action''\<rparr>
   \<and> resolve_followup ''yeah do that'' (demo_memory (PStr ''compare_ev_valuation'')) =
     Inr \<lparr>kind = ''action'', action = Some (hd demo_actions), clarify_prompt = None,
          confidence = 70, reason = ''ack_or_continue -> default missing -> first_action''\<rparr>"
proof -
  have ne: "demo_actions \<noteq> []"
    by (simp add: demo_actions_def)
  have ack: "is_ack_or_continue ''yeah do that''"
    and noord: "ordinal_pick ''yeah do that'' = None"
    and noscore: "\<forall>a \<in> set demo_actions. score_action_match ''yeah do that'' a = 0"
    by code_simp+
  have found: "List.find (\<lambda>a. PStr (action_id a) = PStr ''deep_dive_key_risks'') demo_actions
                 = Some (demo_actions ! 1)"
    and stale: "List.find (\<lambda>a. PStr (action_id a) = PStr ''compare_ev_valuation'') demo_actions = None"
    by code_simp+
  have r1: "resolve_followup ''yeah do that'' (demo_memory (PStr ''deep_dive_key_risks'')) =
     Inr \<lparr>kind = ''action'', action = Some (demo_actions ! 1), clarify_prompt = None,
          confidence = 80, reason = ''ack_or_continue -> default_action''\<rparr>"
    using acknowledgement_takes_default
      [OF load_demo [unfolded demo_memory_dict] ne ack noord noscore] found
    by (simp add: demo_memory_dict dict_get_def)
  have r2: "resolve_followup ''yeah do that'' (demo_memory (PStr ''compare_ev_valuation'')) =
     Inr \<lparr>kind = ''action'', action = Some (hd demo_actions), clarify_prompt = None,
          confidence = 70, reason = ''ack_or_continue -> default missing -> first_action''\<rparr>"
    using acknowledgement_takes_default
      [OF load_demo_stale [unfolded demo_memory_dict] ne ack noord noscore] stale
    by (simp add: demo_memory_dict dict_get_def)
  show ?thesis
    using r1 r2 by simp
qed

text \<open>
  Claim C8, amended. Every resolution that \<^verbatim>\<open>resolve_followup\<close> returns has its fields
  populated according to its kind: with kind \<^verbatim>\<open>action\<close> the action is present and the
  prompt absent, with kind \<^verbatim>\<open>clarify\<close> the prompt is present and the action absent, and
  with kind \<^verbatim>\<open>none\<close> both are absent.
\<close>

theorem resolution_fields_match_kind:
  assumes "resolve_followup t mem = Inr r"
  shows "(kind r = ''action'' \<and> action r \<noteq> None \<and> clarify_prompt r = None)
       \<or> (kind r = ''clarify'' \<and> action r = None \<and> clarify_prompt r \<noteq> None)
       \<or> (kind r = ''none'' \<and> action r = None \<and> clarify_prompt r = None)"
proof -
  obtain actions default_id where load: "load_actions_from_memory mem = Inr (actions, default_id)"
    using assms by (auto simp: resolve_followup_def split: sum.splits)
  show ?thesis
  proof (cases "actions = []")
    case True
    then show ?thesis
      using assms resolve_followup_no_actions [of mem default_id t] load by auto
  next
    case ne: False
    show ?thesis
    proof (cases "\<exists>i. ordinal_pick t = Some i \<and> 0 \<le> i \<and> i < int (length actions)")
      case True
      then show ?thesis
        using assms resolve_followup_ordinal [OF load] by auto
    next
      case False
      let ?xs = "map (\<lambda>a. (a, score_action_match t a)) actions"
      obtain b bs others where sorted: "sort_scored ?xs = (b, bs) # others"
        using ne sort_scored_nonempty [of ?xs] by auto
      have noord: "\<forall>i. ordinal_pick t = Some i \<longrightarrow> \<not> (0 \<le> i \<and> i < int (length actions))"
        using False by blast
      show ?thesis
        using assms unfolding resolve_followup_later_steps [OF load ne noord sorted refl]
        by (auto split: if_splits option.splits)
    qed
  qed
qed

theorem resolution_fields_match_kind_witness:
  "resolve_followup ''the second one'' (demo_memory PNone) =
     Inr \<lparr>kind = ''action'', action = Some (demo_actions ! 1), clarify_prompt = None,
          confidence = 90, reason = ''ordinal_pick=1''\<rparr>
   \<and> ((''action'' = ''action'' \<and> Some (demo_actions ! 1) \<noteq> None \<and> (None :: string option) = None)
       \<or> (''action'' = ''clarify'' \<and> Some (demo_actions ! 1) = None \<and> (None :: string option) \<noteq> None)
       \<or> (''action'' = ''none'' \<and> Some (demo_actions ! 1) = None \<and> (None :: string option) = None))"
proof -
  have run: "resolve_followup ''the second one'' (demo_memory PNone) =
     Inr \<lparr>kind = ''action'', action = Some (demo_actions ! 1), clarify_prompt = None,
          confidence = 90, reason = ''ordinal_pick=1''\<rparr>"
    by code_simp
  from resolution_fields_match_kind [OF run] run show ?thesis
    by simp
qed

text \<open>
  The claim as stated asks for exactly one populated field also when the kind is
  \<^verbatim>\<open>none\<close>; that result populates neither.
\<close>

theorem no_actions_populates_neither_counterexample:
  "resolve_followup ''yeah do that'' (PDict [(''next_actions'', PList [])]) =
     Inr \<lparr>kind = ''none'', action = None, clarify_prompt = None, confidence = 0,
          reason = ''no next_actions in memory''\<rparr>"
  by code_simp

text \<open>
  Claim C10. If the memory record yields at least one action and the text normalizes to the
  empty string, \<^verbatim>\<open>resolve_followup\<close> returns kind \<^verbatim>\<open>clarify\<close> with confidence 40 and the
  prompt over the first three actions: no ordinal matches, every score is 0 and the empty
  text is no acknowledgment.
\<close>

theorem empty_text_asks_to_clarify:
  assumes load: "load_actions_from_memory mem = Inr (actions, default_id)"
    and ne: "actions \<noteq> []"
    and empty: "normalize_text t = []"
  shows "resolve_followup t mem =
     Inr \<lparr>kind = ''clarify'', action = None, clarify_prompt = Some (clarify_text actions),
          confidence = 40, reason = ''ambiguous best_score=0 second_score=0''\<rparr>"
proof -
  let ?scored = "map (\<lambda>a. (a, score_action_match t a)) actions"
  have zero: "\<forall>x \<in> set ?scored. snd x = 0"
    using score_action_match_empty [OF empty] by auto
  then have same: "sort_scored ?scored = ?scored"
    by (rule sort_scored_constant)
  obtain a rest where actions: "actions = a # rest"
    using ne by (cases actions) auto
  have sorted: "sort_scored ?scored = (a, 0) # map (\<lambda>a. (a, score_action_match t a)) rest"
    using same score_action_match_empty [OF empty] by (simp add: actions)
  have second: "(0::int) = (case map (\<lambda>a. (a, score_action_match t a)) rest of
                              [] \<Rightarrow> 0 | x # _ \<Rightarrow> snd x)"
    using score_action_match_empty [OF empty] by (cases rest) auto
  have zero_str: "str_of_int 0 = ''0''"
    by code_simp
  show ?thesis
    using resolve_followup_later_steps [OF load ne _ sorted second]
      ordinal_pick_empty [OF empty] is_ack_or_continue_empty [OF empty]
    by (simp add: zero_str)
qed

theorem empty_text_asks_to_clarify_witness:
  "resolve_followup ''  ?! '' (demo_memory PNone) =
     Inr \<lparr>kind = ''clarify'', action = None, clarify_prompt = Some (clarify_text demo_actions),
          confidence = 40, reason = ''ambiguous best_score=0 second_score=0''\<rparr>"
proof -
  have "normalize_text ''  ?! '' = []"
    by code_simp
  moreover have "demo_actions \<noteq> []"
    by (simp add: demo_actions_def)
  ultimately show ?thesis
    using empty_text_asks_to_clarify [OF load_demo_none] by simp
qed

section \<open>Properties of both components\<close>

text \<open>
  Claim C7, amended. \<^verbatim>\<open>resolve_followup\<close> is a function of its two arguments, and reads the
  text only through its normal form and the memory only through the loaded actions and
  default id: equal normal forms and equal loads give equal resolutions.
  \<^verbatim>\<open>calculate_confidence\<close> is a function of its two arguments and of the clock, which it
  reads during the call; the clock is no parameter of the Python function. The reading
  matters through the freshness bucket of the price timestamp only: two readings that put
  the parsed timestamp of the bundle, if there is one, into the same bucket give equal
  results, and so do equal readings.
\<close>

theorem results_fixed_by_inputs_and_clock:
  "(normalize_text t1 = normalize_text t2
      \<and> load_actions_from_memory m1 = load_actions_from_memory m2
      \<longrightarrow> resolve_followup t1 m1 = resolve_followup t2 m2)
   \<and> ((\<forall>c s t. dict_get d ''current'' = PDict c \<and> dict_get c ''timestamp'' = PStr s
                \<and> fromisoformat s = Some t
                \<longrightarrow> freshness (now1 - t) = freshness (now2 - t))
      \<longrightarrow> calculate_confidence fromisoformat now1 (PDict d) articles
          = calculate_confidence fromisoformat now2 (PDict d) articles)"
  using resolve_followup_cong [of t1 t2 m1 m2]
    calculate_confidence_clock [of d fromisoformat now1 now2 articles]
  by blast

theorem results_fixed_by_inputs_and_clock_witness:
  "resolve_followup ''The FIRST one, please!'' (demo_memory PNone)
     = resolve_followup ''the first one please'' (demo_memory PNone)
   \<and> calculate_confidence parse_fixture 0 (PDict (complete_data ''2025-01-15T09:50:00'')) None
     = calculate_confidence parse_fixture (minutes 5) (PDict (complete_data ''2025-01-15T09:50:00'')) None"
proof -
  have norm: "normalize_text ''The FIRST one, please!'' = normalize_text ''the first one please''"
    by code_simp
  have bucket: "\<forall>c s t. dict_get (complete_data ''2025-01-15T09:50:00'') ''current'' = PDict c
                \<and> dict_get c ''timestamp'' = PStr s \<and> parse_fixture s = Some t
                \<longrightarrow> freshness (0 - t) = freshness (minutes 5 - t)"
    by (auto simp: complete_data_def dict_get_def parse_fixture_def freshness_def minutes_def
          hours_def split: if_splits)
  show ?thesis
    using results_fixed_by_inputs_and_clock
      [of "''The FIRST one, please!''" "''the first one please''" "demo_memory PNone"
          "demo_memory PNone" "complete_data ''2025-01-15T09:50:00''" parse_fixture 0 "minutes 5" None]
      norm bucket
    by blast
qed

text \<open>
  The claim as stated excludes an influence of the clock that the function captures: the
  same bundle and articles score 75 when the call is made ten minutes after the price was
  taken, and 55 two days later.
\<close>

theorem clock_changes_score_counterexample:
  "calculate_confidence parse_fixture 0 (PDict (complete_data ''2025-01-15T09:50:00'')) None
     = Inr (''MEDIUM'', 75, [''Article search not performed''])
   \<and> calculate_confidence parse_fixture (hours 48) (PDict (complete_data ''2025-01-15T09:50:00'')) None
     = Inr (''MEDIUM'', 55, [''Price data is over 1 day old'', ''Article search not performed''])"
  by (simp add: calculate_confidence_def check_current_def check_company_def check_historical_def
      check_articles_def py_get_def timestamp_age_def freshness_def determine_level_def
      complete_data_def dict_get_def parse_fixture_def minutes_def hours_def)




text \<open>Keywords that are a number raise in the same way when the loader iterates over them.\<close>

lemma non_iterable_keywords_raise:
  "resolve_followup ''hmm''
     (PDict [(''next_actions'',
        PList [PDict [(''id'', PStr ''a''), (''query'', PStr ''q''), (''keywords'', PInt 5)]])])
     = Inl TypeError"
  by code_simp

end
